theory Spec2Isabelle
  imports Main "HOL-Library.Sublist" "HOL-Library.List_Lexorder" "HOL-Library.Char_ord"
begin

section \<open>The data index of the Ultracube Factoriopedia (class UltracubeDataProcessor)\<close>

text \<open>
  The embedding follows \<^verbatim>\<open>data-processor.js\<close>. A JavaScript object of the dataset is a
  record of the fields the code reads; \<^verbatim>\<open>null\<close> and \<^verbatim>\<open>undefined\<close> are both \<open>None\<close>.
  A string is the text of the JavaScript string in UTF-8. The built-in
  \<^verbatim>\<open>String.prototype.toLowerCase\<close> belongs to the runtime, not to this repository: the
  one method that calls it takes it as an argument. The methods of the class take the
  object's state and return their result together with the state they leave.
\<close>

subsection \<open>Strings\<close>

text \<open>
  \<^verbatim>\<open>l.toUpperCase()\<close> in \<^verbatim>\<open>findCraftingEntity\<close> is applied to one character that the
  class \<^verbatim>\<open>\w\<close> has matched, an ASCII letter, digit or underscore.
\<close>

definition toUpperCase_char :: "char \<Rightarrow> char" where
  "toUpperCase_char c =
     (let n = (of_char c :: nat) in if 97 \<le> n \<and> n \<le> 122 then char_of (n - 32) else c)"




text \<open>\<^verbatim>\<open>s.includes(q)\<close> on strings: \<open>q\<close> occurs in \<open>s\<close> as a contiguous run.\<close>

fun str_includes :: "string \<Rightarrow> string \<Rightarrow> bool" where
  "str_includes [] q = (q = [])"
| "str_includes (c # cs) q = (prefix q (c # cs) \<or> str_includes cs q)"

text \<open>The character class \<^verbatim>\<open>\w\<close> of a regular expression: \<^verbatim>\<open>[A-Za-z0-9_]\<close>.\<close>

definition is_word_char :: "char \<Rightarrow> bool" where
  "is_word_char c =
     (let n = (of_char c :: nat) in
        (65 \<le> n \<and> n \<le> 90) \<or> (97 \<le> n \<and> n \<le> 122) \<or> (48 \<le> n \<and> n \<le> 57) \<or> n = 95)"

text \<open>\<^verbatim>\<open>.replace(/-/g, ' ')\<close>\<close>

definition replace_dashes :: "string \<Rightarrow> string" where
  "replace_dashes s = map (\<lambda>c. if c = CHR ''-'' then CHR '' '' else c) s"

text \<open>
  \<^verbatim>\<open>.replace(/\b\w/g, l => l.toUpperCase())\<close>: a word character is matched where the
  character before it is not one (or there is none). The flag says whether the
  previous character was a word character.
\<close>

fun capitalize_words :: "bool \<Rightarrow> string \<Rightarrow> string" where
  "capitalize_words prev [] = []"
| "capitalize_words prev (c # cs) =
     (if is_word_char c \<and> \<not> prev then toUpperCase_char c else c)
       # capitalize_words (is_word_char c) cs"

subsection \<open>The dataset document\<close>

text \<open>
  A relation field (\<^verbatim>\<open>ingredients\<close>, \<^verbatim>\<open>results\<close>, \<^verbatim>\<open>crafting_categories\<close>, \<^verbatim>\<open>effects\<close>)
  arrives in one of four shapes: a falsy value (the field is missing, or \<^verbatim>\<open>null\<close>), a
  plain array, an object whose \<^verbatim>\<open>_array_items\<close> is an array, or any other truthy value
  (an object with no \<^verbatim>\<open>_array_items\<close>, or with a falsy one). An object whose
  \<^verbatim>\<open>_array_items\<close> is truthy and not an array is not a shape of the dataset document and
  has no counterpart here. The elements of the arrays are records.
\<close>

datatype 'a relation_data = Absent | Plain "'a list" | Wrapped "'a list" | Unrecognized

record stack =
  stack_name :: string
  amount :: int

record effect =
  effect_type :: string
  effect_recipe :: "string option"

record raw =
  name :: string
  cleaned_name :: "string option"
  category :: "string option"
  ingredients :: "stack relation_data"
  results :: "stack relation_data"
  crafting_categories :: "string relation_data"
  effects :: "effect relation_data"

text \<open>The parsed dataset: \<^verbatim>\<open>this.data[type]\<close> is the array under a key, if there is one.\<close>

type_synonym dataset = "string \<Rightarrow> raw list option"

type_synonym icon_map = "string \<Rightarrow> string option"

subsection \<open>The processed records and the state of the index\<close>

record item =
  i_raw :: raw
  i_displayName :: string
  i_id :: string
  i_type :: string

record entity_ref =
  ref_name :: string
  ref_id :: string
  ref_type :: string

record recipe =
  r_raw :: raw
  r_displayName :: string
  r_id :: string
  r_ingredients :: "stack list"
  r_results :: "stack list"
  r_craftingEntity :: "entity_ref option"

record crafting_entity =
  e_raw :: raw
  e_displayName :: string
  e_id :: string
  e_type :: string
  e_categories :: "string list"

record index =
  data :: "dataset option"
  recipes :: "recipe list"
  items :: "item list"
  craftingEntities :: "crafting_entity list"
  recipeLookup :: "string \<Rightarrow> recipe option"
  itemLookup :: "string \<Rightarrow> item option"
  craftingLookup :: "string \<Rightarrow> crafting_entity option"
  iconMapping :: icon_map

text \<open>The constructor.\<close>

definition new_index :: index where
  "new_index = \<lparr>data = None, recipes = [], items = [], craftingEntities = [],
     recipeLookup = Map.empty, itemLookup = Map.empty, craftingLookup = Map.empty,
     iconMapping = Map.empty\<rparr>"

datatype error = TypeError

subsection \<open>processData and its helpers\<close>

definition extractItems :: "'a relation_data \<Rightarrow> 'a list" where
  "extractItems itemsData =
     (case itemsData of
        Absent \<Rightarrow> []
      | Plain xs \<Rightarrow> xs
      | Wrapped xs \<Rightarrow> xs
      | Unrecognized \<Rightarrow> [])"

definition extractCategories :: "'a relation_data \<Rightarrow> 'a list" where
  "extractCategories categoriesData =
     (case categoriesData of
        Absent \<Rightarrow> []
      | Plain xs \<Rightarrow> xs
      | Wrapped xs \<Rightarrow> xs
      | Unrecognized \<Rightarrow> [])"

text \<open>\<^verbatim>\<open>x.cleaned_name || x.name\<close>: an empty \<^verbatim>\<open>cleaned_name\<close> is falsy.\<close>

definition displayNameOf :: "raw \<Rightarrow> string" where
  "displayNameOf x =
     (case cleaned_name x of
        None \<Rightarrow> name x
      | Some c \<Rightarrow> if c = [] then name x else c)"

text \<open>
  The table of \<^verbatim>\<open>findCraftingEntity\<close>, read by its own keys: a category that names a
  member of \<^verbatim>\<open>Object.prototype\<close> (such as \<^verbatim>\<open>constructor\<close>) is not modelled. The same holds
  for the keys of the icon mapping.
\<close>

definition categoryMappings :: "string \<Rightarrow> string option" where
  "categoryMappings =
     [''crafting'' \<mapsto> ''Assembling Machine'',
      ''smelting'' \<mapsto> ''Furnace'',
      ''chemistry'' \<mapsto> ''Chemical Plant'',
      ''oil-processing'' \<mapsto> ''Oil Refinery'',
      ''rocket-building'' \<mapsto> ''Rocket Silo'']"

text \<open>
  \<^verbatim>\<open>findCraftingEntity\<close> reads \<^verbatim>\<open>this.craftingEntities\<close> as it is when the method is called.
  A missing or empty category is falsy. An array is truthy, so the test
  \<^verbatim>\<open>e.categories &&\<close> always passes.
\<close>

definition findCraftingEntity :: "string option \<Rightarrow> index \<Rightarrow> entity_ref option" where
  "findCraftingEntity cat s =
     (case cat of
        None \<Rightarrow> None
      | Some c \<Rightarrow>
          if c = [] then None
          else (case find (\<lambda>e. c \<in> set (e_categories e)) (craftingEntities s) of
                  Some entity \<Rightarrow>
                    Some \<lparr>ref_name = e_displayName entity, ref_id = e_id entity,
                          ref_type = e_type entity\<rparr>
                | None \<Rightarrow>
                    Some \<lparr>ref_name =
                            (case categoryMappings c of
                               Some n \<Rightarrow> n
                             | None \<Rightarrow> capitalize_words False (replace_dashes c)),
                          ref_id = c, ref_type = ''category''\<rparr>))"

definition itemTypes :: "string list" where
  "itemTypes = [''item'', ''fluid'', ''science'', ''armor'', ''module'', ''capsule'',
                ''repair-tool'', ''item-with-entity-data'', ''rail-planner'']"

definition entityTypes :: "string list" where
  "entityTypes = [''assembling-machine'', ''furnace'', ''mining-drill'', ''lab'']"

definition flattenItem :: "string \<Rightarrow> raw \<Rightarrow> item" where
  "flattenItem ty x =
     \<lparr>i_raw = x, i_displayName = displayNameOf x, i_id = name x, i_type = ty\<rparr>"

text \<open>One round of the loop over \<^verbatim>\<open>itemTypes\<close>: push the bucket's items, then index them.\<close>

definition processItemBucket :: "dataset \<Rightarrow> string \<Rightarrow> index \<Rightarrow> index" where
  "processItemBucket d ty s =
     (case d ty of
        None \<Rightarrow> s
      | Some bucket \<Rightarrow>
          let typeItems = map (flattenItem ty) bucket in
          s\<lparr>items := items s @ typeItems,
            itemLookup := fold (\<lambda>x m. m(name (i_raw x) \<mapsto> x)) typeItems (itemLookup s)\<rparr>)"

definition processRecipe :: "index \<Rightarrow> raw \<Rightarrow> recipe" where
  "processRecipe s x =
     \<lparr>r_raw = x, r_displayName = displayNameOf x, r_id = name x,
      r_ingredients = extractItems (ingredients x),
      r_results = extractItems (results x),
      r_craftingEntity = findCraftingEntity (category x) s\<rparr>"

definition processRecipes :: "dataset \<Rightarrow> index \<Rightarrow> index" where
  "processRecipes d s =
     (case d ''recipe'' of
        None \<Rightarrow> s
      | Some bucket \<Rightarrow>
          let rs = map (processRecipe s) bucket in
          s\<lparr>recipes := rs,
            recipeLookup := fold (\<lambda>r m. m(name (r_raw r) \<mapsto> r)) rs (recipeLookup s)\<rparr>)"

definition processEntity :: "string \<Rightarrow> raw \<Rightarrow> crafting_entity" where
  "processEntity ty x =
     \<lparr>e_raw = x, e_displayName = displayNameOf x, e_id = name x, e_type = ty,
      e_categories = extractCategories (crafting_categories x)\<rparr>"

definition processEntityBucket :: "dataset \<Rightarrow> string \<Rightarrow> index \<Rightarrow> index" where
  "processEntityBucket d ty s =
     (case d ty of
        None \<Rightarrow> s
      | Some bucket \<Rightarrow>
          fold (\<lambda>x s'. s'\<lparr>craftingEntities := craftingEntities s' @ [processEntity ty x],
                           craftingLookup := (craftingLookup s')(name x \<mapsto> processEntity ty x)\<rparr>)
            bucket s)"

text \<open>
  \<^verbatim>\<open>processData\<close>: items, then recipes, then crafting entities, in the order of the
  source. With no dataset (\<^verbatim>\<open>this.data\<close> is \<^verbatim>\<open>null\<close>) the first read of
  \<^verbatim>\<open>this.data[type]\<close> throws, after \<^verbatim>\<open>this.items\<close> has been emptied.
\<close>

definition processData :: "index \<Rightarrow> error option \<times> index" where
  "processData s =
     (case data s of
        None \<Rightarrow> (Some TypeError, s\<lparr>items := []\<rparr>)
      | Some d \<Rightarrow>
          let s1 = fold (processItemBucket d) itemTypes (s\<lparr>items := []\<rparr>);
              s2 = processRecipes d s1;
              s3 = fold (processEntityBucket d) entityTypes (s2\<lparr>craftingEntities := []\<rparr>)
          in (None, s3))"

subsection \<open>loadData\<close>

text \<open>
  What \<^verbatim>\<open>await fetch(...)\<close> followed by \<^verbatim>\<open>await response.json()\<close> gives: the promise is
  rejected (transport or parse failure), or the parsed document.
\<close>

datatype 'a fetched = Failed | Fetched 'a

text \<open>
  The two documents are fetched one after the other inside one \<^verbatim>\<open>try\<close>; each result is
  assigned to its field as soon as it is there. Any exception ends the call with
  \<^verbatim>\<open>false\<close> and the state as it is at that point.
\<close>

definition loadData :: "dataset fetched \<Rightarrow> icon_map fetched \<Rightarrow> index \<Rightarrow> bool \<times> index" where
  "loadData response iconResponse s =
     (case response of
        Failed \<Rightarrow> (False, s)
      | Fetched d \<Rightarrow>
          let s1 = s\<lparr>data := Some d\<rparr> in
          (case iconResponse of
             Failed \<Rightarrow> (False, s1)
           | Fetched m \<Rightarrow>
               let s2 = s1\<lparr>iconMapping := m\<rparr> in
               (case processData s2 of
                  (Some e, s3) \<Rightarrow> (False, s3)
                | (None, s3) \<Rightarrow> (True, s3))))"

text \<open>The state a load leaves when both documents arrive.\<close>

definition loaded :: "dataset \<Rightarrow> icon_map \<Rightarrow> index \<Rightarrow> index" where
  "loaded d m s = snd (loadData (Fetched d) (Fetched m) s)"

subsection \<open>The queries\<close>

definition getRecipesThatMake :: "string \<Rightarrow> index \<Rightarrow> recipe list \<times> index" where
  "getRecipesThatMake itemName s =
     (filter (\<lambda>r. list_ex (\<lambda>result. stack_name result = itemName) (r_results r)) (recipes s), s)"

definition getRecipesThatUse :: "string \<Rightarrow> index \<Rightarrow> recipe list \<times> index" where
  "getRecipesThatUse itemName s =
     (filter (\<lambda>r. list_ex (\<lambda>ingredient. stack_name ingredient = itemName) (r_ingredients r))
        (recipes s), s)"

text \<open>
  \<^verbatim>\<open>entity.categories.includes(recipe.category)\<close>: a recipe with no category is in no
  array of strings. The categories of an indexed entity are an array, which is truthy, so
  of the test \<^verbatim>\<open>!entity || !entity.categories\<close> only the first half can hold.
\<close>

definition getRecipesCraftableBy :: "string \<Rightarrow> index \<Rightarrow> recipe list \<times> index" where
  "getRecipesCraftableBy entityName s =
     (case craftingLookup s entityName of
        None \<Rightarrow> ([], s)
      | Some entity \<Rightarrow>
          (filter (\<lambda>r. case category (r_raw r) of
                          None \<Rightarrow> False
                        | Some c \<Rightarrow> c \<in> set (e_categories entity)) (recipes s), s))"

definition getAllItems :: "index \<Rightarrow> item list \<times> index" where
  "getAllItems s = (items s, s)"

definition getAllRecipes :: "index \<Rightarrow> recipe list \<times> index" where
  "getAllRecipes s = (recipes s, s)"

definition getItem :: "string \<Rightarrow> index \<Rightarrow> item option \<times> index" where
  "getItem itemName s = (itemLookup s itemName, s)"

definition getRecipe :: "string \<Rightarrow> index \<Rightarrow> recipe option \<times> index" where
  "getRecipe recipeName s = (recipeLookup s recipeName, s)"

definition getCraftingEntity :: "string \<Rightarrow> index \<Rightarrow> crafting_entity option \<times> index" where
  "getCraftingEntity entityName s = (craftingLookup s entityName, s)"

text \<open>
  \<^verbatim>\<open>getItemTypes\<close>: the set holding \<^verbatim>\<open>'item'\<close> and every key of the dataset that is one of
  the other eight item types, as a sorted array. \<^verbatim>\<open>Object.keys(null)\<close> throws.
\<close>

definition getItemTypes :: "index \<Rightarrow> (error + string list) \<times> index" where
  "getItemTypes s =
     (case data s of
        None \<Rightarrow> (Inl TypeError, s)
      | Some d \<Rightarrow>
          (Inr (sort (remdups (''item'' # filter (\<lambda>key. d key \<noteq> None)
              [''fluid'', ''science'', ''armor'', ''module'', ''capsule'', ''repair-tool'',
               ''item-with-entity-data'', ''rail-planner'']))), s))"

text \<open>
  \<^verbatim>\<open>searchItems\<close>: the first argument is the runtime's \<^verbatim>\<open>toLowerCase\<close>, called on the query
  and on the display name and the name of every item.
\<close>

definition searchItems ::
  "(string \<Rightarrow> string) \<Rightarrow> string \<Rightarrow> string \<Rightarrow> index \<Rightarrow> item list \<times> index" where
  "searchItems toLowerCase query typeFilter s =
     (let filteredItems = items s;
          filteredItems = (if typeFilter \<noteq> []
                           then filter (\<lambda>x. i_type x = typeFilter) filteredItems
                           else filteredItems);
          filteredItems = (if query \<noteq> []
                           then let lowerQuery = toLowerCase query in
                                filter (\<lambda>x. str_includes (toLowerCase (i_displayName x)) lowerQuery
                                            \<or> str_includes (toLowerCase (name (i_raw x))) lowerQuery)
                                  filteredItems
                           else filteredItems)
      in (filteredItems, s))"

text \<open>\<^verbatim>\<open>this.iconMapping[itemName] || null\<close>: an empty file name is falsy.\<close>

definition getItemIcon :: "string \<Rightarrow> index \<Rightarrow> string option \<times> index" where
  "getItemIcon itemName s =
     (case iconMapping s itemName of
        None \<Rightarrow> (None, s)
      | Some f \<Rightarrow> if f = [] then (None, s) else (Some f, s))"

text \<open>The test of one effect inside \<^verbatim>\<open>getTechnologyThatUnlocks\<close>.\<close>

definition effectUnlocks :: "string \<Rightarrow> index \<Rightarrow> effect \<Rightarrow> bool" where
  "effectUnlocks itemName s eff =
     (if effect_type eff = ''unlock-recipe''
      then (case effect_recipe eff of
              None \<Rightarrow> False
            | Some rn \<Rightarrow>
                (case fst (getRecipe rn s) of
                   None \<Rightarrow> False
                 | Some r \<Rightarrow> list_ex (\<lambda>result. stack_name result = itemName) (r_results r)))
      else False)"

definition getTechnologyThatUnlocks :: "string \<Rightarrow> index \<Rightarrow> (error + raw option) \<times> index" where
  "getTechnologyThatUnlocks itemName s =
     (case data s of
        None \<Rightarrow> (Inl TypeError, s)
      | Some d \<Rightarrow>
          (case d ''technology'' of
             None \<Rightarrow> (Inr None, s)
           | Some techs \<Rightarrow>
               (Inr (find (\<lambda>tech. if effects tech = Absent then False
                                   else list_ex (effectUnlocks itemName s)
                                          (extractItems (effects tech))) techs), s)))"

subsection \<open>What a load produces, bucket by bucket\<close>

text \<open>
  The records one bucket contributes, and the whole collections in the order
  \<^verbatim>\<open>processData\<close> visits the buckets.
\<close>

definition bucketItems :: "dataset \<Rightarrow> string \<Rightarrow> item list" where
  "bucketItems d ty = (case d ty of None \<Rightarrow> [] | Some bucket \<Rightarrow> map (flattenItem ty) bucket)"

definition bucketEntities :: "dataset \<Rightarrow> string \<Rightarrow> crafting_entity list" where
  "bucketEntities d ty = (case d ty of None \<Rightarrow> [] | Some bucket \<Rightarrow> map (processEntity ty) bucket)"

definition allItems :: "dataset \<Rightarrow> item list" where
  "allItems d = concat (map (bucketItems d) itemTypes)"

definition allEntities :: "dataset \<Rightarrow> crafting_entity list" where
  "allEntities d = concat (map (bucketEntities d) entityTypes)"

subsection \<open>Example documents\<close>

definition raw_named :: "string \<Rightarrow> raw" where
  "raw_named n = \<lparr>name = n, cleaned_name = None, category = None, ingredients = Absent,
     results = Absent, crafting_categories = Absent, effects = Absent\<rparr>"

definition ex_smelt :: raw where
  "ex_smelt = (raw_named ''iron-plate'')
     \<lparr>category := Some ''smelting'',
      ingredients := Plain [\<lparr>stack_name = ''iron-ore'', amount = 1\<rparr>],
      results := Wrapped [\<lparr>stack_name = ''iron-plate'', amount = 1\<rparr>]\<rparr>"

definition ex_furnace :: raw where
  "ex_furnace = (raw_named ''stone-furnace'')
     \<lparr>cleaned_name := Some ''Stone Furnace'', crafting_categories := Plain [''smelting'']\<rparr>"

definition ex_tech :: raw where
  "ex_tech = (raw_named ''smelting-tech'')
     \<lparr>effects := Plain [\<lparr>effect_type = ''unlock-recipe'', effect_recipe = Some ''iron-plate''\<rparr>]\<rparr>"

definition ex_data :: dataset where
  "ex_data =
     [''item'' \<mapsto> [raw_named ''iron-ore'',
                   (raw_named ''iron-plate'')\<lparr>cleaned_name := Some ''Iron Plate''\<rparr>],
      ''fluid'' \<mapsto> [raw_named ''water''],
      ''recipe'' \<mapsto> [ex_smelt],
      ''furnace'' \<mapsto> [ex_furnace],
      ''technology'' \<mapsto> [ex_tech]]"

text \<open>The same raw name in two item-type buckets.\<close>

definition dup_data :: dataset where
  "dup_data =
     [''item'' \<mapsto> [(raw_named ''a'')\<lparr>cleaned_name := Some ''A''\<rparr>],
      ''fluid'' \<mapsto> [(raw_named ''a'')\<lparr>cleaned_name := Some ''B''\<rparr>]]"





section \<open>Properties\<close>

subsection \<open>Lists, folds and lookups\<close>

lemma find_app:
  "find P (xs @ ys) = (case find P xs of None \<Rightarrow> find P ys | Some x \<Rightarrow> Some x)"
  by (induction xs) simp_all

lemma fold_upd_lookup:
  "fold (\<lambda>x m. m(key x \<mapsto> x)) xs m k =
     (case find (\<lambda>x. key x = k) (rev xs) of Some x \<Rightarrow> Some x | None \<Rightarrow> m k)"
proof (induction xs rule: rev_induct)
  case Nil
  show ?case by simp
next
  case (snoc x xs)
  show ?case
  proof (cases "key x = k")
    case True
    then show ?thesis by simp
  next
    case False
    then show ?thesis using snoc.IH by simp
  qed
qed

lemma fold_keeps:
  assumes "\<And>x s. f (g x s) = f s"
  shows "f (fold g xs s) = f s"
  using assms by (induction xs arbitrary: s) simp_all


lemma processItemBucket_items:
  "items (processItemBucket d ty s) = items s @ bucketItems d ty"
  by (simp add: processItemBucket_def bucketItems_def Let_def split: option.splits)

lemma processItemBucket_itemLookup:
  "itemLookup (processItemBucket d ty s) =
     fold (\<lambda>x m. m(i_id x \<mapsto> x)) (bucketItems d ty) (itemLookup s)"
proof (cases "d ty")
  case None
  then show ?thesis by (simp add: processItemBucket_def bucketItems_def)
next
  case (Some bucket)
  have "fold (\<lambda>x m. m(name (i_raw x) \<mapsto> x)) (map (flattenItem ty) bucket) m0 =
        fold (\<lambda>x m. m(i_id x \<mapsto> x)) (map (flattenItem ty) bucket) m0" for m0
    by (rule fold_cong) (auto simp: flattenItem_def)
  with Some show ?thesis by (simp add: processItemBucket_def bucketItems_def Let_def)
qed

lemma processItemBucket_others:
  "data (processItemBucket d ty s) = data s"
  "recipes (processItemBucket d ty s) = recipes s"
  "craftingEntities (processItemBucket d ty s) = craftingEntities s"
  "recipeLookup (processItemBucket d ty s) = recipeLookup s"
  "craftingLookup (processItemBucket d ty s) = craftingLookup s"
  "iconMapping (processItemBucket d ty s) = iconMapping s"
  by (simp_all add: processItemBucket_def Let_def split: option.splits)

lemma fold_items:
  "items (fold (processItemBucket d) tys s) = items s @ concat (map (bucketItems d) tys)"
  by (induction tys arbitrary: s) (simp_all add: processItemBucket_items)

lemma fold_itemLookup:
  "itemLookup (fold (processItemBucket d) tys s) =
     fold (\<lambda>x m. m(i_id x \<mapsto> x)) (concat (map (bucketItems d) tys)) (itemLookup s)"
  by (induction tys arbitrary: s) (simp_all add: processItemBucket_itemLookup)

lemma processEntityBucket_craftingEntities:
  "craftingEntities (processEntityBucket d ty s) = craftingEntities s @ bucketEntities d ty"
proof (cases "d ty")
  case None
  then show ?thesis by (simp add: processEntityBucket_def bucketEntities_def)
next
  case (Some bucket)
  have "craftingEntities (fold (\<lambda>x s'. s'\<lparr>craftingEntities := craftingEntities s' @ [processEntity ty x],
                           craftingLookup := (craftingLookup s')(name x \<mapsto> processEntity ty x)\<rparr>) bucket s0)
        = craftingEntities s0 @ map (processEntity ty) bucket" for s0
    by (induction bucket arbitrary: s0) simp_all
  with Some show ?thesis by (simp add: processEntityBucket_def bucketEntities_def)
qed

lemma processEntityBucket_craftingLookup:
  "craftingLookup (processEntityBucket d ty s) =
     fold (\<lambda>x m. m(e_id x \<mapsto> x)) (bucketEntities d ty) (craftingLookup s)"
proof (cases "d ty")
  case None
  then show ?thesis by (simp add: processEntityBucket_def bucketEntities_def)
next
  case (Some bucket)
  have "craftingLookup (fold (\<lambda>x s'. s'\<lparr>craftingEntities := craftingEntities s' @ [processEntity ty x],
                           craftingLookup := (craftingLookup s')(name x \<mapsto> processEntity ty x)\<rparr>) bucket s0)
        = fold (\<lambda>x m. m(e_id x \<mapsto> x)) (map (processEntity ty) bucket) (craftingLookup s0)" for s0
    by (induction bucket arbitrary: s0) (simp_all add: processEntity_def)
  with Some show ?thesis by (simp add: processEntityBucket_def bucketEntities_def)
qed

lemma processEntityBucket_others:
  "data (processEntityBucket d ty s) = data s"
  "recipes (processEntityBucket d ty s) = recipes s"
  "items (processEntityBucket d ty s) = items s"
  "recipeLookup (processEntityBucket d ty s) = recipeLookup s"
  "itemLookup (processEntityBucket d ty s) = itemLookup s"
  "iconMapping (processEntityBucket d ty s) = iconMapping s"
  by (simp_all add: processEntityBucket_def fold_keeps split: option.splits)

lemma fold_craftingEntities:
  "craftingEntities (fold (processEntityBucket d) tys s) =
     craftingEntities s @ concat (map (bucketEntities d) tys)"
  by (induction tys arbitrary: s) (simp_all add: processEntityBucket_craftingEntities)

lemma fold_craftingLookup:
  "craftingLookup (fold (processEntityBucket d) tys s) =
     fold (\<lambda>x m. m(e_id x \<mapsto> x)) (concat (map (bucketEntities d) tys)) (craftingLookup s)"
  by (induction tys arbitrary: s) (simp_all add: processEntityBucket_craftingLookup)

lemma processRecipe_cong:
  "craftingEntities s = craftingEntities s' \<Longrightarrow> processRecipe s = processRecipe s'"
  by (rule ext) (simp add: processRecipe_def findCraftingEntity_def cong: option.case_cong if_cong)

subsection \<open>The state after a load\<close>

lemma processRecipes_recipes:
  "recipes (processRecipes d s) =
     (case d ''recipe'' of None \<Rightarrow> recipes s | Some bucket \<Rightarrow> map (processRecipe s) bucket)"
  by (simp add: processRecipes_def Let_def split: option.splits)


lemma processRecipes_others:
  "data (processRecipes d s) = data s"
  "items (processRecipes d s) = items s"
  "craftingEntities (processRecipes d s) = craftingEntities s"
  "itemLookup (processRecipes d s) = itemLookup s"
  "craftingLookup (processRecipes d s) = craftingLookup s"
  "iconMapping (processRecipes d s) = iconMapping s"
  by (simp_all add: processRecipes_def Let_def split: option.splits)

lemma processData_Some:
  "data s = Some d \<Longrightarrow>
   processData s =
     (None, fold (processEntityBucket d) entityTypes
              ((processRecipes d (fold (processItemBucket d) itemTypes (s\<lparr>items := []\<rparr>)))
                 \<lparr>craftingEntities := []\<rparr>))"
  by (simp add: processData_def Let_def)

lemma loadData_Fetched: "loadData (Fetched d) (Fetched m) s = (True, loaded d m s)"
  by (simp add: loaded_def loadData_def Let_def processData_Some)

text \<open>A load succeeds exactly when both documents arrive.\<close>

lemma loadData_succeeds_iff:
  "fst (loadData response iconResponse s) \<longleftrightarrow>
     (\<exists>d m. response = Fetched d \<and> iconResponse = Fetched m)"
proof (cases response)
  case Failed
  then show ?thesis by (simp add: loadData_def)
next
  case (Fetched d)
  show ?thesis
  proof (cases iconResponse)
    case Failed
    then show ?thesis using Fetched by (simp add: loadData_def)
  next
    case (Fetched m)
    then show ?thesis using \<open>response = Fetched d\<close> by (simp add: loadData_Fetched)
  qed
qed

lemma loaded_unfold:
  "loaded d m s =
     fold (processEntityBucket d) entityTypes
       ((processRecipes d (fold (processItemBucket d) itemTypes
            (s\<lparr>data := Some d, iconMapping := m, items := []\<rparr>)))\<lparr>craftingEntities := []\<rparr>)"
  by (simp add: loaded_def loadData_def Let_def processData_Some)


lemma loaded_iconMapping: "iconMapping (loaded d m s) = m"
  by (simp add: loaded_unfold fold_keeps processEntityBucket_others processRecipes_others
      processItemBucket_others)

lemma loaded_items: "items (loaded d m s) = allItems d"
  by (simp add: loaded_unfold fold_keeps processEntityBucket_others processRecipes_others
      fold_items allItems_def)

lemma loaded_itemLookup:
  "itemLookup (loaded d m s) = fold (\<lambda>x m. m(i_id x \<mapsto> x)) (allItems d) (itemLookup s)"
  by (simp add: loaded_unfold fold_keeps processEntityBucket_others processRecipes_others
      fold_itemLookup allItems_def)

lemma loaded_craftingEntities: "craftingEntities (loaded d m s) = allEntities d"
  by (simp add: loaded_unfold fold_craftingEntities allEntities_def)

lemma loaded_craftingLookup:
  "craftingLookup (loaded d m s) =
     fold (\<lambda>x m. m(e_id x \<mapsto> x)) (allEntities d) (craftingLookup s)"
  by (simp add: loaded_unfold fold_craftingLookup allEntities_def processRecipes_others
      fold_keeps processItemBucket_others)

lemma loaded_recipes:
  "recipes (loaded d m s) =
     (case d ''recipe'' of None \<Rightarrow> recipes s | Some bucket \<Rightarrow> map (processRecipe s) bucket)"
proof -
  let ?s1 = "fold (processItemBucket d) itemTypes (s\<lparr>data := Some d, iconMapping := m, items := []\<rparr>)"
  have ce: "craftingEntities ?s1 = craftingEntities s"
    by (simp add: fold_keeps processItemBucket_others)
  have rc: "recipes ?s1 = recipes s"
    by (simp add: fold_keeps processItemBucket_others)
  have "recipes (loaded d m s) = recipes (processRecipes d ?s1)"
    by (simp add: loaded_unfold fold_keeps processEntityBucket_others)
  also have "\<dots> = (case d ''recipe'' of None \<Rightarrow> recipes s
                     | Some bucket \<Rightarrow> map (processRecipe s) bucket)"
    using processRecipe_cong [OF ce] by (simp add: processRecipes_recipes rc split: option.splits)
  finally show ?thesis .
qed


subsection \<open>Normalising the two forms of a relation field\<close>

text \<open>
  C7. \<^verbatim>\<open>extractItems\<close> and \<^verbatim>\<open>extractCategories\<close> send a plain array and the wrapped
  form \<^verbatim>\<open>{_array_items: [...]}\<close> with the same elements to the same sequence, the
  elements themselves; a missing field and an object without \<^verbatim>\<open>_array_items\<close> give the
  empty sequence. Neither function fails.
\<close>

theorem C7_dual_form_normalization:
  "extractItems (Plain xs) = extractItems (Wrapped xs)
   \<and> extractItems (Wrapped xs) = xs
   \<and> extractItems (Absent :: 'a relation_data) = []
   \<and> extractItems (Unrecognized :: 'a relation_data) = []
   \<and> extractCategories (Plain ys) = extractCategories (Wrapped ys)
   \<and> extractCategories (Wrapped ys) = ys
   \<and> extractCategories (Absent :: 'b relation_data) = []
   \<and> extractCategories (Unrecognized :: 'b relation_data) = []"
  by (simp add: extractItems_def extractCategories_def)

subsection \<open>Queries do not write\<close>

text \<open>
  C10. Each of the ten queries returns the state it was given, whatever that state is
  (loaded or not) and whatever its arguments and its result are, an exception included.
\<close>

theorem C10_queries_leave_the_index_unchanged:
  "snd (getItem x s) = s
   \<and> snd (getRecipe x s) = s
   \<and> snd (getCraftingEntity x s) = s
   \<and> snd (getRecipesThatMake x s) = s
   \<and> snd (getRecipesThatUse x s) = s
   \<and> snd (getRecipesCraftableBy x s) = s
   \<and> snd (getTechnologyThatUnlocks x s) = s
   \<and> snd (getItemTypes s) = s
   \<and> snd (searchItems toLowerCase q t s) = s
   \<and> snd (getItemIcon x s) = s"
proof -
  have "snd (getRecipesCraftableBy x s) = s"
    by (simp add: getRecipesCraftableBy_def split: option.splits)
  moreover have "snd (getTechnologyThatUnlocks x s) = s"
    by (simp add: getTechnologyThatUnlocks_def split: option.splits)
  moreover have "snd (getItemTypes s) = s"
    by (simp add: getItemTypes_def split: option.splits)
  moreover have "snd (searchItems toLowerCase q t s) = s"
    by (simp add: searchItems_def Let_def)
  moreover have "snd (getItemIcon x s) = s"
    by (simp add: getItemIcon_def split: option.splits)
  ultimately show ?thesis
    by (simp add: getItem_def getRecipe_def getCraftingEntity_def getRecipesThatMake_def
        getRecipesThatUse_def)
qed

subsection \<open>A failed load\<close>

text \<open>
  C2, as stated, asks that a failed load changes no field. When the dataset arrives and
  the icon mapping does not, the call returns \<^verbatim>\<open>false\<close> and \<^verbatim>\<open>this.data\<close> already holds the
  dataset: on a new index it is no longer \<^verbatim>\<open>null\<close>.
\<close>

theorem C2_failed_icon_fetch_changes_data:
  "fst (loadData (Fetched ex_data) Failed new_index) = False
   \<and> data (snd (loadData (Fetched ex_data) Failed new_index)) \<noteq> data new_index"
  by (simp add: loadData_def new_index_def)

text \<open>
  C2, amended. When the dataset fetch or parse fails, \<^verbatim>\<open>loadData\<close> returns \<^verbatim>\<open>false\<close> and the
  index is unchanged. When the icon-mapping fetch or parse fails, it returns \<^verbatim>\<open>false\<close>,
  \<^verbatim>\<open>data\<close> holds the parsed dataset, and every other field (recipes, items, crafting
  entities, the three lookups, the icon mapping) is unchanged.
\<close>

theorem C2_failed_load:
  "loadData Failed iconResponse s = (False, s)
   \<and> loadData (Fetched d) Failed s = (False, s\<lparr>data := Some d\<rparr>)
   \<and> recipes (snd (loadData (Fetched d) Failed s)) = recipes s
   \<and> items (snd (loadData (Fetched d) Failed s)) = items s
   \<and> craftingEntities (snd (loadData (Fetched d) Failed s)) = craftingEntities s
   \<and> recipeLookup (snd (loadData (Fetched d) Failed s)) = recipeLookup s
   \<and> itemLookup (snd (loadData (Fetched d) Failed s)) = itemLookup s
   \<and> craftingLookup (snd (loadData (Fetched d) Failed s)) = craftingLookup s
   \<and> iconMapping (snd (loadData (Fetched d) Failed s)) = iconMapping s"
  by (simp add: loadData_def)

subsection \<open>Resolving a recipe's crafting entity\<close>

text \<open>
  \<^verbatim>\<open>processData\<close> builds the recipes before it fills \<^verbatim>\<open>this.craftingEntities\<close>, so on the
  first load of an index \<^verbatim>\<open>findCraftingEntity\<close> searches an empty collection and every
  recipe with a category gets the synthetic reference.
\<close>

lemma findCraftingEntity_no_entities:
  assumes "craftingEntities s = []" and "c \<noteq> []"
  shows "findCraftingEntity (Some c) s =
     Some \<lparr>ref_name = (case categoryMappings c of Some n \<Rightarrow> n
                         | None \<Rightarrow> capitalize_words False (replace_dashes c)),
           ref_id = c, ref_type = ''category''\<rparr>"
  using assms by (simp add: findCraftingEntity_def)

text \<open>
  On a collection that is filled, \<^verbatim>\<open>findCraftingEntity\<close> returns the reference to the first
  entity, in the order of the collection, whose categories hold the category.
\<close>

lemma findCraftingEntity_first_match:
  assumes "c \<noteq> []"
    and "i < length (craftingEntities s)"
    and "c \<in> set (e_categories (craftingEntities s ! i))"
    and "\<forall>j<i. c \<notin> set (e_categories (craftingEntities s ! j))"
  shows "findCraftingEntity (Some c) s =
     Some \<lparr>ref_name = e_displayName (craftingEntities s ! i),
           ref_id = e_id (craftingEntities s ! i),
           ref_type = e_type (craftingEntities s ! i)\<rparr>"
proof -
  have "find (\<lambda>e. c \<in> set (e_categories e)) (craftingEntities s) = Some (craftingEntities s ! i)"
    using assms(2-4) by (auto simp: find_Some_iff)
  then show ?thesis
    using assms(1) by (simp add: findCraftingEntity_def)
qed

lemma first_load_always_falls_back:
  assumes "d ''recipe'' = Some bucket" and "x \<in> set bucket" and "category x = Some c" and "c \<noteq> []"
  shows "processRecipe new_index x \<in> set (recipes (loaded d m new_index))
       \<and> r_craftingEntity (processRecipe new_index x) =
         Some \<lparr>ref_name = (case categoryMappings c of Some n \<Rightarrow> n
                         | None \<Rightarrow> capitalize_words False (replace_dashes c)),
           ref_id = c, ref_type = ''category''\<rparr>"
proof -
  have "recipes (loaded d m new_index) = map (processRecipe new_index) bucket"
    using assms(1) by (simp add: loaded_recipes)
  then have mem: "processRecipe new_index x \<in> set (recipes (loaded d m new_index))"
    using assms(2) by simp
  have "craftingEntities new_index = []"
    by (simp add: new_index_def)
  then have "findCraftingEntity (Some c) new_index =
      Some \<lparr>ref_name = (case categoryMappings c of Some n \<Rightarrow> n
                         | None \<Rightarrow> capitalize_words False (replace_dashes c)),
           ref_id = c, ref_type = ''category''\<rparr>"
    using assms(4) by (rule findCraftingEntity_no_entities)
  then show ?thesis
    using mem assms(3) by (simp add: processRecipe_def)
qed

text \<open>
  C1 says that the synthetic reference is produced only when no crafting entity of the
  dataset matches the recipe's category. On a new index, with a dataset holding the
  furnace \<^verbatim>\<open>stone-furnace\<close> (categories \<^verbatim>\<open>["smelting"]\<close>) and one recipe of category
  \<^verbatim>\<open>smelting\<close>, the load indexes the furnace and still resolves the recipe to the
  placeholder \<^verbatim>\<open>{name: "Furnace", id: "smelting", type: "category"}\<close>.
\<close>

theorem C1_first_load_ignores_matching_entity:
  "craftingEntities (loaded ex_data Map.empty new_index) = [processEntity ''furnace'' ex_furnace]
   \<and> ''smelting'' \<in> set (e_categories (processEntity ''furnace'' ex_furnace))
   \<and> map (category \<circ> r_raw) (recipes (loaded ex_data Map.empty new_index)) = [Some ''smelting'']
   \<and> map r_craftingEntity (recipes (loaded ex_data Map.empty new_index)) =
       [Some \<lparr>ref_name = ''Furnace'', ref_id = ''smelting'', ref_type = ''category''\<rparr>]"
proof -
  have "allEntities ex_data = [processEntity ''furnace'' ex_furnace]"
    by (simp add: allEntities_def entityTypes_def bucketEntities_def ex_data_def)
  moreover have "''smelting'' \<in> set (e_categories (processEntity ''furnace'' ex_furnace))"
    by (simp add: processEntity_def ex_furnace_def raw_named_def extractCategories_def)
  moreover have "recipes (loaded ex_data Map.empty new_index) = [processRecipe new_index ex_smelt]"
    by (simp add: loaded_recipes ex_data_def)
  moreover have "r_craftingEntity (processRecipe new_index ex_smelt) =
      Some \<lparr>ref_name = ''Furnace'', ref_id = ''smelting'', ref_type = ''category''\<rparr>"
    by (simp add: processRecipe_def findCraftingEntity_def new_index_def ex_smelt_def
        raw_named_def categoryMappings_def)
  moreover have "category (r_raw (processRecipe new_index ex_smelt)) = Some ''smelting''"
    by (simp add: processRecipe_def ex_smelt_def raw_named_def)
  ultimately show ?thesis
    by (simp add: loaded_craftingEntities)
qed

subsection \<open>The example dataset, loaded into a new index\<close>

lemma ex_recipes:
  "recipes (loaded ex_data Map.empty new_index) = [processRecipe new_index ex_smelt]"
  by (simp add: loaded_recipes ex_data_def)

lemma ex_smelt_processed:
  "r_results (processRecipe s ex_smelt) = [\<lparr>stack_name = ''iron-plate'', amount = 1\<rparr>]"
  "r_ingredients (processRecipe s ex_smelt) = [\<lparr>stack_name = ''iron-ore'', amount = 1\<rparr>]"
  "r_id (processRecipe s ex_smelt) = ''iron-plate''"
  "category (r_raw (processRecipe s ex_smelt)) = Some ''smelting''"
  by (simp_all add: processRecipe_def ex_smelt_def raw_named_def extractItems_def)


lemma ex_allEntities: "allEntities ex_data = [processEntity ''furnace'' ex_furnace]"
  by (simp add: allEntities_def entityTypes_def bucketEntities_def ex_data_def)

lemma ex_furnace_processed:
  "e_id (processEntity ty ex_furnace) = ''stone-furnace''"
  "e_categories (processEntity ty ex_furnace) = [''smelting'']"
  by (simp_all add: processEntity_def ex_furnace_def raw_named_def extractCategories_def)

lemma ex_craftingLookup:
  "craftingLookup (loaded ex_data Map.empty new_index) ''stone-furnace'' =
     Some (processEntity ''furnace'' ex_furnace)"
  by (simp add: loaded_craftingLookup ex_allEntities ex_furnace_processed)

text \<open>
  Loading the example dataset a second time into the same index resolves the recipe to
  the furnace: the search then runs on the collection the first load left.
\<close>

lemma second_load_resolves_entity:
  "map r_craftingEntity
     (recipes (loaded ex_data Map.empty (loaded ex_data Map.empty new_index))) =
     [Some \<lparr>ref_name = ''Stone Furnace'', ref_id = ''stone-furnace'', ref_type = ''furnace''\<rparr>]"
proof -
  let ?s = "loaded ex_data Map.empty new_index"
  have "ex_data ''recipe'' = Some [ex_smelt]"
    by (simp add: ex_data_def)
  then have "recipes (loaded ex_data Map.empty ?s) = [processRecipe ?s ex_smelt]"
    by (simp add: loaded_recipes)
  moreover have "craftingEntities ?s = [processEntity ''furnace'' ex_furnace]"
    by (simp add: loaded_craftingEntities ex_allEntities)
  moreover have "category ex_smelt = Some ''smelting''"
    by (simp add: ex_smelt_def raw_named_def)
  ultimately show ?thesis
    by (simp add: processRecipe_def findCraftingEntity_def processEntity_def ex_furnace_def
        raw_named_def extractCategories_def displayNameOf_def)
qed

subsection \<open>Recipes that make or use an item\<close>

lemma list_ex_name: "list_ex (\<lambda>e. stack_name e = x) xs \<longleftrightarrow> (\<exists>e \<in> set xs. stack_name e = x)"
  by (simp add: list_ex_iff)

text \<open>
  C3. After a load, a recipe of the index is in \<^verbatim>\<open>getRecipesThatMake(x)\<close> exactly when one
  of its results is named \<open>x\<close>, and in \<^verbatim>\<open>getRecipesThatUse(x)\<close> exactly when one of its
  ingredients is. Both answers are the recipe list filtered, so they keep its order; and
  when the dataset has a recipe bucket, the recipe list is that bucket in its order, the
  answers being the bucket's records whose normalised results (ingredients) name \<open>x\<close>.
\<close>

theorem C3_recipes_that_make_and_use:
  "(\<forall>r \<in> set (recipes (loaded d m s0)).
      (r \<in> set (fst (getRecipesThatMake x (loaded d m s0)))
         \<longleftrightarrow> (\<exists>e \<in> set (r_results r). stack_name e = x))
    \<and> (r \<in> set (fst (getRecipesThatUse x (loaded d m s0)))
         \<longleftrightarrow> (\<exists>e \<in> set (r_ingredients r). stack_name e = x)))
   \<and> fst (getRecipesThatMake x (loaded d m s0)) =
       filter (\<lambda>r. \<exists>e \<in> set (r_results r). stack_name e = x) (recipes (loaded d m s0))
   \<and> fst (getRecipesThatUse x (loaded d m s0)) =
       filter (\<lambda>r. \<exists>e \<in> set (r_ingredients r). stack_name e = x) (recipes (loaded d m s0))
   \<and> subseq (fst (getRecipesThatMake x (loaded d m s0))) (recipes (loaded d m s0))
   \<and> subseq (fst (getRecipesThatUse x (loaded d m s0))) (recipes (loaded d m s0))
   \<and> (\<forall>bucket. d ''recipe'' = Some bucket \<longrightarrow>
         map r_raw (recipes (loaded d m s0)) = bucket
       \<and> map r_raw (fst (getRecipesThatMake x (loaded d m s0))) =
           filter (\<lambda>y. \<exists>e \<in> set (extractItems (results y)). stack_name e = x) bucket
       \<and> map r_raw (fst (getRecipesThatUse x (loaded d m s0))) =
           filter (\<lambda>y. \<exists>e \<in> set (extractItems (ingredients y)). stack_name e = x) bucket)"
proof -
  let ?s = "loaded d m s0"
  have mk: "fst (getRecipesThatMake x ?s) =
      filter (\<lambda>r. \<exists>e \<in> set (r_results r). stack_name e = x) (recipes ?s)"
    by (simp add: getRecipesThatMake_def list_ex_name)
  have us: "fst (getRecipesThatUse x ?s) =
      filter (\<lambda>r. \<exists>e \<in> set (r_ingredients r). stack_name e = x) (recipes ?s)"
    by (simp add: getRecipesThatUse_def list_ex_name)
  have mem: "\<forall>r \<in> set (recipes ?s).
      (r \<in> set (fst (getRecipesThatMake x ?s)) \<longleftrightarrow> (\<exists>e \<in> set (r_results r). stack_name e = x))
    \<and> (r \<in> set (fst (getRecipesThatUse x ?s)) \<longleftrightarrow> (\<exists>e \<in> set (r_ingredients r). stack_name e = x))"
    by (simp add: mk us)
  have sub: "subseq (fst (getRecipesThatMake x ?s)) (recipes ?s)"
            "subseq (fst (getRecipesThatUse x ?s)) (recipes ?s)"
    by (simp_all add: mk us)
  have raw: "map r_raw (recipes ?s) = bucket
       \<and> map r_raw (fst (getRecipesThatMake x ?s)) =
           filter (\<lambda>y. \<exists>e \<in> set (extractItems (results y)). stack_name e = x) bucket
       \<and> map r_raw (fst (getRecipesThatUse x ?s)) =
           filter (\<lambda>y. \<exists>e \<in> set (extractItems (ingredients y)). stack_name e = x) bucket"
    if b: "d ''recipe'' = Some bucket" for bucket
  proof -
    have rs: "recipes ?s = map (processRecipe s0) bucket"
      using b by (simp add: loaded_recipes)
    have "map r_raw (recipes ?s) = bucket"
      by (simp add: rs processRecipe_def comp_def)
    moreover have "map r_raw (fst (getRecipesThatMake x ?s)) =
           filter (\<lambda>y. \<exists>e \<in> set (extractItems (results y)). stack_name e = x) bucket"
      by (simp add: mk rs filter_map comp_def processRecipe_def)
    moreover have "map r_raw (fst (getRecipesThatUse x ?s)) =
           filter (\<lambda>y. \<exists>e \<in> set (extractItems (ingredients y)). stack_name e = x) bucket"
      by (simp add: us rs filter_map comp_def processRecipe_def)
    ultimately show ?thesis by simp
  qed
  from mem mk us sub raw show ?thesis by blast
qed

text \<open>The example dataset: the smelting recipe makes \<^verbatim>\<open>iron-plate\<close> and uses \<^verbatim>\<open>iron-ore\<close>.\<close>

theorem C3_witness:
  "processRecipe new_index ex_smelt \<in> set (recipes (loaded ex_data Map.empty new_index))
   \<and> ex_data ''recipe'' = Some [ex_smelt]
   \<and> processRecipe new_index ex_smelt
        \<in> set (fst (getRecipesThatMake ''iron-plate'' (loaded ex_data Map.empty new_index)))
   \<and> processRecipe new_index ex_smelt
        \<notin> set (fst (getRecipesThatUse ''iron-plate'' (loaded ex_data Map.empty new_index)))
   \<and> map r_raw (fst (getRecipesThatMake ''iron-plate'' (loaded ex_data Map.empty new_index)))
        = [ex_smelt]
   \<and> map r_raw (fst (getRecipesThatUse ''iron-ore'' (loaded ex_data Map.empty new_index)))
        = [ex_smelt]"
proof -
  have b: "ex_data ''recipe'' = Some [ex_smelt]"
    by (simp add: ex_data_def)
  have r: "processRecipe new_index ex_smelt \<in> set (recipes (loaded ex_data Map.empty new_index))"
    by (simp add: ex_recipes)
  note c1 = C3_recipes_that_make_and_use [of ex_data Map.empty new_index "''iron-plate''"]
  note c2 = C3_recipes_that_make_and_use [of ex_data Map.empty new_index "''iron-ore''"]
  note m1 = bspec [OF c1 [THEN conjunct1] r]
  note raw1 = c1 [THEN conjunct2, THEN conjunct2, THEN conjunct2, THEN conjunct2,
      THEN conjunct2, rule_format, OF b]
  note raw2 = c2 [THEN conjunct2, THEN conjunct2, THEN conjunct2, THEN conjunct2,
      THEN conjunct2, rule_format, OF b]
  have "processRecipe new_index ex_smelt
        \<in> set (fst (getRecipesThatMake ''iron-plate'' (loaded ex_data Map.empty new_index)))"
    using m1 by (simp add: ex_smelt_processed)
  moreover have "processRecipe new_index ex_smelt
        \<notin> set (fst (getRecipesThatUse ''iron-plate'' (loaded ex_data Map.empty new_index)))"
    using m1 by (simp add: ex_smelt_processed)
  moreover have "map r_raw (fst (getRecipesThatMake ''iron-plate'' (loaded ex_data Map.empty new_index)))
        = [ex_smelt]"
    using raw1 by (simp add: ex_smelt_def raw_named_def extractItems_def)
  moreover have "map r_raw (fst (getRecipesThatUse ''iron-ore'' (loaded ex_data Map.empty new_index)))
        = [ex_smelt]"
    using raw2 by (simp add: ex_smelt_def raw_named_def extractItems_def)
  ultimately show ?thesis using b r by simp
qed

subsection \<open>Recipes a crafting entity can craft\<close>

text \<open>
  C4. After a load, the entity indexed under \<open>e\<close> is the last entity of the dataset's
  crafting-entity buckets named \<open>e\<close> (or what the lookup held before, if there is none).
  With no entity under \<open>e\<close>, \<^verbatim>\<open>getRecipesCraftableBy(e)\<close> is empty; with the entity
  \<open>ent\<close> under \<open>e\<close> it is exactly the recipes whose category is in \<open>ent\<close>'s categories, in
  the order of the recipe list, hence empty when \<open>ent\<close> has no categories.
\<close>

theorem C4_recipes_craftable_by:
  "fst (getCraftingEntity e (loaded d m s0)) =
     (case find (\<lambda>k. e_id k = e) (rev (allEntities d)) of
        Some k \<Rightarrow> Some k
      | None \<Rightarrow> craftingLookup s0 e)
   \<and> (fst (getCraftingEntity e (loaded d m s0)) = None \<longrightarrow>
        fst (getRecipesCraftableBy e (loaded d m s0)) = [])
   \<and> (\<forall>ent. fst (getCraftingEntity e (loaded d m s0)) = Some ent \<longrightarrow>
        fst (getRecipesCraftableBy e (loaded d m s0)) =
          filter (\<lambda>r. \<exists>c. category (r_raw r) = Some c \<and> c \<in> set (e_categories ent))
            (recipes (loaded d m s0))
      \<and> (\<forall>r. r \<in> set (fst (getRecipesCraftableBy e (loaded d m s0))) \<longleftrightarrow>
             r \<in> set (recipes (loaded d m s0))
           \<and> (\<exists>c. category (r_raw r) = Some c \<and> c \<in> set (e_categories ent)))
      \<and> (e_categories ent = [] \<longrightarrow> fst (getRecipesCraftableBy e (loaded d m s0)) = []))"
proof -
  let ?s = "loaded d m s0"
  have lk: "fst (getCraftingEntity e ?s) =
     (case find (\<lambda>k. e_id k = e) (rev (allEntities d)) of
        Some k \<Rightarrow> Some k
      | None \<Rightarrow> craftingLookup s0 e)"
    by (simp add: getCraftingEntity_def loaded_craftingLookup fold_upd_lookup)
  have none: "fst (getRecipesCraftableBy e ?s) = []" if "fst (getCraftingEntity e ?s) = None"
    using that by (simp add: getCraftingEntity_def getRecipesCraftableBy_def)
  have some: "fst (getRecipesCraftableBy e ?s) =
          filter (\<lambda>r. \<exists>c. category (r_raw r) = Some c \<and> c \<in> set (e_categories ent)) (recipes ?s)"
    if "fst (getCraftingEntity e ?s) = Some ent" for ent
  proof -
    have "fst (getRecipesCraftableBy e ?s) =
        filter (\<lambda>r. case category (r_raw r) of None \<Rightarrow> False
                      | Some c \<Rightarrow> c \<in> set (e_categories ent)) (recipes ?s)"
      using that by (simp add: getCraftingEntity_def getRecipesCraftableBy_def)
    also have "\<dots> =
        filter (\<lambda>r. \<exists>c. category (r_raw r) = Some c \<and> c \<in> set (e_categories ent)) (recipes ?s)"
      by (rule filter_cong [OF refl]) (simp split: option.splits)
    finally show ?thesis .
  qed
  have mem: "r \<in> set (fst (getRecipesCraftableBy e ?s)) \<longleftrightarrow>
             r \<in> set (recipes ?s)
           \<and> (\<exists>c. category (r_raw r) = Some c \<and> c \<in> set (e_categories ent))"
    if "fst (getCraftingEntity e ?s) = Some ent" for ent r
    by (simp add: some [OF that])
  have empty: "fst (getRecipesCraftableBy e ?s) = []"
    if "fst (getCraftingEntity e ?s) = Some ent" and "e_categories ent = []" for ent
    by (simp add: some [OF that(1)] that(2))
  from lk none some mem empty show ?thesis by blast
qed

text \<open>The example dataset: the stone furnace crafts the smelting recipe; no \<^verbatim>\<open>lab-1\<close>.\<close>

theorem C4_witness:
  "fst (getCraftingEntity ''stone-furnace'' (loaded ex_data Map.empty new_index)) =
     Some (processEntity ''furnace'' ex_furnace)
   \<and> fst (getRecipesCraftableBy ''stone-furnace'' (loaded ex_data Map.empty new_index)) =
       [processRecipe new_index ex_smelt]
   \<and> fst (getCraftingEntity ''lab-1'' (loaded ex_data Map.empty new_index)) = None
   \<and> fst (getRecipesCraftableBy ''lab-1'' (loaded ex_data Map.empty new_index)) = []"
proof -
  note c1 = C4_recipes_craftable_by [of "''stone-furnace''" ex_data Map.empty new_index]
  note c2 = C4_recipes_craftable_by [of "''lab-1''" ex_data Map.empty new_index]
  have e1: "fst (getCraftingEntity ''stone-furnace'' (loaded ex_data Map.empty new_index)) =
     Some (processEntity ''furnace'' ex_furnace)"
    using c1 [THEN conjunct1] by (simp add: ex_allEntities ex_furnace_processed)
  have e2: "fst (getCraftingEntity ''lab-1'' (loaded ex_data Map.empty new_index)) = None"
    using c2 [THEN conjunct1]
    by (simp add: ex_allEntities ex_furnace_processed new_index_def)
  note f1 = c1 [THEN conjunct2, THEN conjunct2, rule_format, OF e1, THEN conjunct1]
  note f2 = c2 [THEN conjunct2, THEN conjunct1, rule_format, OF e2]
  have "fst (getRecipesCraftableBy ''stone-furnace'' (loaded ex_data Map.empty new_index)) =
       [processRecipe new_index ex_smelt]"
    using f1 by (simp add: ex_recipes ex_smelt_processed ex_furnace_processed)
  with e1 e2 f2 show ?thesis by simp
qed

subsection \<open>The technology that unlocks an item\<close>






subsection \<open>The flat item collection and the item lookup\<close>

lemma bucketItems_fields:
  assumes "j \<in> set (bucketItems d ty)"
  shows "i_id j = name (i_raw j)" and "i_displayName j = displayNameOf (i_raw j)"
    and "i_type j = ty" and "\<exists>bucket. d ty = Some bucket \<and> i_raw j \<in> set bucket"
proof -
  obtain bucket where b: "d ty = Some bucket" and j: "j \<in> set (map (flattenItem ty) bucket)"
    using assms by (cases "d ty") (simp_all add: bucketItems_def)
  from j obtain x where x: "x \<in> set bucket" and jx: "j = flattenItem ty x"
    by auto
  show "i_id j = name (i_raw j)" and "i_displayName j = displayNameOf (i_raw j)"
    and "i_type j = ty"
    by (simp_all add: jx flattenItem_def)
  show "\<exists>bucket. d ty = Some bucket \<and> i_raw j \<in> set bucket"
    using b x by (simp add: jx flattenItem_def)
qed

lemma allItems_fields:
  assumes "j \<in> set (allItems d)"
  shows "i_id j = name (i_raw j)" and "i_displayName j = displayNameOf (i_raw j)"
    and "i_type j \<in> set itemTypes"
  using assms bucketItems_fields [of j d] by (auto simp: allItems_def)

lemma allItems_member:
  assumes "ty \<in> set itemTypes" and "d ty = Some bucket" and "x \<in> set bucket"
  shows "flattenItem ty x \<in> set (allItems d)"
proof -
  have "flattenItem ty x \<in> set (bucketItems d ty)"
    using assms(2,3) by (simp add: bucketItems_def)
  then show ?thesis
    using assms(1) by (auto simp: allItems_def)
qed

lemma allItems_ids:
  "map i_id (allItems d) =
     concat (map (\<lambda>ty. case d ty of None \<Rightarrow> [] | Some bucket \<Rightarrow> map name bucket) itemTypes)"
proof -
  have "map i_id (bucketItems d ty) = (case d ty of None \<Rightarrow> [] | Some bucket \<Rightarrow> map name bucket)"
    for ty
    by (simp add: bucketItems_def flattenItem_def comp_def split: option.splits)
  then show ?thesis
    by (simp add: allItems_def map_concat comp_def)
qed

lemma getItem_loaded:
  "fst (getItem x (loaded d m s0)) =
     (case find (\<lambda>k. i_id k = x) (rev (allItems d)) of
        Some k \<Rightarrow> Some k
      | None \<Rightarrow> itemLookup s0 x)"
  by (simp add: getItem_def loaded_itemLookup fold_upd_lookup)

lemma find_SomeD:
  assumes "find P xs = Some x"
  shows "x \<in> set xs" and "P x"
  using assms by (induction xs) (auto split: if_splits)

lemma find_distinct_key:
  assumes "distinct (map f ys)" and "j \<in> set ys"
  shows "find (\<lambda>k. f k = f j) ys = Some j"
  using assms by (induction ys) auto

lemma ex_allItems:
  "allItems ex_data =
     [flattenItem ''item'' (raw_named ''iron-ore''),
      flattenItem ''item'' ((raw_named ''iron-plate'')\<lparr>cleaned_name := Some ''Iron Plate''\<rparr>),
      flattenItem ''fluid'' (raw_named ''water'')]"
  by (simp add: allItems_def itemTypes_def bucketItems_def ex_data_def)

lemma dup_allItems:
  "allItems dup_data =
     [flattenItem ''item'' ((raw_named ''a'')\<lparr>cleaned_name := Some ''A''\<rparr>),
      flattenItem ''fluid'' ((raw_named ''a'')\<lparr>cleaned_name := Some ''B''\<rparr>)]"
  by (simp add: allItems_def itemTypes_def bucketItems_def dup_data_def)

subsection \<open>Searching the items\<close>










subsection \<open>The display name behind getItem\<close>

text \<open>
  C6, as stated, speaks of every item record. With the record
  \<^verbatim>\<open>{name: "a", cleaned_name: "A"}\<close> in the bucket \<^verbatim>\<open>item\<close> and
  \<^verbatim>\<open>{name: "a", cleaned_name: "B"}\<close> in the bucket \<^verbatim>\<open>fluid\<close>, \<^verbatim>\<open>getItem("a")\<close> has the
  display name \<^verbatim>\<open>"B"\<close>, not the first record's \<^verbatim>\<open>"A"\<close>.
\<close>

theorem C6_duplicate_name_hides_cleaned_name:
  "''item'' \<in> set itemTypes
   \<and> dup_data ''item'' = Some [(raw_named ''a'')\<lparr>cleaned_name := Some ''A''\<rparr>]
   \<and> name ((raw_named ''a'')\<lparr>cleaned_name := Some ''A''\<rparr>) = ''a''
   \<and> map_option i_displayName (fst (getItem ''a'' (loaded dup_data Map.empty new_index)))
       = Some ''B''"
proof -
  have "''item'' \<in> set itemTypes"
    by (simp add: itemTypes_def)
  moreover have "dup_data ''item'' = Some [(raw_named ''a'')\<lparr>cleaned_name := Some ''A''\<rparr>]"
    by (simp add: dup_data_def)
  moreover have "name ((raw_named ''a'')\<lparr>cleaned_name := Some ''A''\<rparr>) = ''a''"
    by (simp add: raw_named_def)
  moreover have "map_option i_displayName
      (fst (getItem ''a'' (loaded dup_data Map.empty new_index))) = Some ''B''"
    by (simp add: getItem_loaded dup_allItems flattenItem_def raw_named_def displayNameOf_def)
  ultimately show ?thesis by simp
qed

text \<open>
  C6, amended. For every record \<open>x\<close> of an item-like bucket, \<^verbatim>\<open>getItem(x.name)\<close> is the
  last flattened item with that id in the order of the item collection. Its display
  name is its own \<^verbatim>\<open>cleaned_name\<close> when that is present and not empty, and the id
  otherwise. When every item with that id carries \<open>x\<close>'s \<^verbatim>\<open>cleaned_name\<close> (so whenever the
  name occurs once), the display name is \<open>x\<close>'s \<^verbatim>\<open>cleaned_name\<close> when present and not empty,
  and \<open>x\<close>'s name otherwise.
\<close>

theorem C6_getItem_displayName:
  assumes "ty \<in> set itemTypes" and "d ty = Some bucket" and "x \<in> set bucket"
  shows "\<exists>j. fst (getItem (name x) (loaded d m s0)) = Some j
           \<and> find (\<lambda>k. i_id k = name x) (rev (fst (getAllItems (loaded d m s0)))) = Some j
           \<and> i_id j = name x
           \<and> i_displayName j =
               (case cleaned_name (i_raw j) of
                  None \<Rightarrow> name x
                | Some c \<Rightarrow> if c = [] then name x else c)
           \<and> ((\<forall>k \<in> set (fst (getAllItems (loaded d m s0))).
                   i_id k = name x \<longrightarrow> cleaned_name (i_raw k) = cleaned_name x)
                \<longrightarrow> i_displayName j =
                      (case cleaned_name x of
                         None \<Rightarrow> name x
                       | Some c \<Rightarrow> if c = [] then name x else c))"
proof -
  let ?s = "loaded d m s0"
  have all: "fst (getAllItems ?s) = allItems d"
    by (simp add: getAllItems_def loaded_items)
  have "flattenItem ty x \<in> set (rev (allItems d))"
    using allItems_member [of ty d bucket x, OF assms] by simp
  moreover have "i_id (flattenItem ty x) = name x"
    by (simp add: flattenItem_def)
  ultimately have "find (\<lambda>k. i_id k = name x) (rev (allItems d)) \<noteq> None"
    by (auto simp: find_None_iff)
  then obtain j where fj: "find (\<lambda>k. i_id k = name x) (rev (allItems d)) = Some j"
    by blast
  then have jid: "i_id j = name x" and jin: "j \<in> set (allItems d)"
    using find_SomeD [OF fj] by simp_all
  have get: "fst (getItem (name x) ?s) = Some j"
    by (simp add: getItem_loaded fj)
  have dn: "i_displayName j =
      (case cleaned_name (i_raw j) of None \<Rightarrow> name x | Some c \<Rightarrow> if c = [] then name x else c)"
    using allItems_fields(1,2) [OF jin] jid
    by (simp add: displayNameOf_def split: option.splits)
  have uniq: "i_displayName j =
      (case cleaned_name x of None \<Rightarrow> name x | Some c \<Rightarrow> if c = [] then name x else c)"
    if "\<forall>k \<in> set (fst (getAllItems ?s)). i_id k = name x \<longrightarrow> cleaned_name (i_raw k) = cleaned_name x"
  proof -
    have "cleaned_name (i_raw j) = cleaned_name x"
      using that jin jid by (simp add: all)
    with dn show ?thesis by simp
  qed
  from get fj jid dn uniq show ?thesis
    by (auto simp: all)
qed

text \<open>The example dataset: one record with a cleaned name, one without.\<close>

theorem C6_witness:
  "''item'' \<in> set itemTypes
   \<and> ex_data ''item'' =
       Some [raw_named ''iron-ore'', (raw_named ''iron-plate'')\<lparr>cleaned_name := Some ''Iron Plate''\<rparr>]
   \<and> map_option i_displayName (fst (getItem ''iron-plate'' (loaded ex_data Map.empty new_index)))
       = Some ''Iron Plate''
   \<and> map_option i_displayName (fst (getItem ''iron-ore'' (loaded ex_data Map.empty new_index)))
       = Some ''iron-ore''"
proof -
  let ?s = "loaded ex_data Map.empty new_index"
  let ?ore = "raw_named ''iron-ore''"
  let ?plate = "(raw_named ''iron-plate'')\<lparr>cleaned_name := Some ''Iron Plate''\<rparr>"
  have ty: "''item'' \<in> set itemTypes"
    by (simp add: itemTypes_def)
  have b: "ex_data ''item'' = Some [?ore, ?plate]"
    by (simp add: ex_data_def)
  have all: "fst (getAllItems ?s) = allItems ex_data"
    by (simp add: getAllItems_def loaded_items)
  have u1: "\<forall>k \<in> set (fst (getAllItems ?s)).
      i_id k = name ?plate \<longrightarrow> cleaned_name (i_raw k) = cleaned_name ?plate"
    by (simp add: all ex_allItems flattenItem_def raw_named_def)
  have u2: "\<forall>k \<in> set (fst (getAllItems ?s)).
      i_id k = name ?ore \<longrightarrow> cleaned_name (i_raw k) = cleaned_name ?ore"
    by (simp add: all ex_allItems flattenItem_def raw_named_def)
  obtain j1 where "fst (getItem (name ?plate) ?s) = Some j1"
    and "i_displayName j1 = (case cleaned_name ?plate of None \<Rightarrow> name ?plate
                             | Some c \<Rightarrow> if c = [] then name ?plate else c)"
    using C6_getItem_displayName [of "''item''" ex_data _ ?plate Map.empty new_index, OF ty b] u1 by auto
  then have p: "map_option i_displayName (fst (getItem ''iron-plate'' ?s)) = Some ''Iron Plate''"
    by (simp add: raw_named_def)
  obtain j2 where "fst (getItem (name ?ore) ?s) = Some j2"
    and "i_displayName j2 = (case cleaned_name ?ore of None \<Rightarrow> name ?ore
                             | Some c \<Rightarrow> if c = [] then name ?ore else c)"
    using C6_getItem_displayName [of "''item''" ex_data _ ?ore Map.empty new_index, OF ty b] u2 by auto
  then have q: "map_option i_displayName (fst (getItem ''iron-ore'' ?s)) = Some ''iron-ore''"
    by (simp add: raw_named_def)
  from ty b p q show ?thesis by simp
qed

subsection \<open>Ids in the flat collection\<close>

text \<open>
  C9, as stated, says that the collection returned by \<^verbatim>\<open>getAllItems\<close> and \<^verbatim>\<open>searchItems\<close>
  has no two records with the same id. With the name \<^verbatim>\<open>a\<close> in the buckets \<^verbatim>\<open>item\<close> and
  \<^verbatim>\<open>fluid\<close>, both return two records with the id \<^verbatim>\<open>a\<close>.
\<close>

theorem C9_flat_collection_keeps_duplicates:
  "map i_id (fst (getAllItems (loaded dup_data Map.empty new_index))) = [''a'', ''a'']
   \<and> (\<forall>toLowerCase. map i_id
         (fst (searchItems toLowerCase [] [] (loaded dup_data Map.empty new_index))) =
         [''a'', ''a''])
   \<and> \<not> distinct (map i_id (fst (getAllItems (loaded dup_data Map.empty new_index))))"
  by (simp add: getAllItems_def searchItems_def loaded_items dup_allItems flattenItem_def
      raw_named_def)

text \<open>
  C9, amended. After a load the flat collection is the concatenation of the item-like
  buckets in the order of \<^verbatim>\<open>itemTypes\<close>, one item per raw record; \<^verbatim>\<open>searchItems("", "")\<close>
  returns the same collection; its ids are the raw names in that order. For the id of
  any item of the collection, \<^verbatim>\<open>getItem\<close> returns the last item of the collection with that
  id. When the ids of the collection are pairwise distinct, \<^verbatim>\<open>getItem\<close> returns each item
  under its id.
\<close>

theorem C9_item_ids:
  "fst (getAllItems (loaded d m s0)) = concat (map (bucketItems d) itemTypes)
   \<and> fst (searchItems toLowerCase [] [] (loaded d m s0)) = fst (getAllItems (loaded d m s0))
   \<and> map i_id (fst (getAllItems (loaded d m s0))) =
       concat (map (\<lambda>ty. case d ty of None \<Rightarrow> [] | Some bucket \<Rightarrow> map name bucket) itemTypes)
   \<and> (\<forall>j \<in> set (fst (getAllItems (loaded d m s0))).
         fst (getItem (i_id j) (loaded d m s0)) =
           find (\<lambda>k. i_id k = i_id j) (rev (fst (getAllItems (loaded d m s0))))
       \<and> (\<exists>k \<in> set (fst (getAllItems (loaded d m s0))).
             fst (getItem (i_id j) (loaded d m s0)) = Some k \<and> i_id k = i_id j))
   \<and> (distinct (map i_id (fst (getAllItems (loaded d m s0)))) \<longrightarrow>
        (\<forall>j \<in> set (fst (getAllItems (loaded d m s0))).
           fst (getItem (i_id j) (loaded d m s0)) = Some j))"
proof -
  let ?s = "loaded d m s0"
  have all: "fst (getAllItems ?s) = allItems d"
    by (simp add: getAllItems_def loaded_items)
  have flat: "fst (getAllItems ?s) = concat (map (bucketItems d) itemTypes)"
    by (simp add: all allItems_def)
  have srch: "fst (searchItems toLowerCase [] [] ?s) = fst (getAllItems ?s)"
    by (simp add: searchItems_def getAllItems_def)
  have ids: "map i_id (fst (getAllItems ?s)) =
       concat (map (\<lambda>ty. case d ty of None \<Rightarrow> [] | Some bucket \<Rightarrow> map name bucket) itemTypes)"
    by (simp only: all allItems_ids)
  have last: "fst (getItem (i_id j) ?s) = find (\<lambda>k. i_id k = i_id j) (rev (fst (getAllItems ?s)))
       \<and> (\<exists>k \<in> set (fst (getAllItems ?s)). fst (getItem (i_id j) ?s) = Some k \<and> i_id k = i_id j)"
    if "j \<in> set (fst (getAllItems ?s))" for j
  proof -
    have "j \<in> set (rev (allItems d))"
      using that by (simp add: all)
    then have "find (\<lambda>k. i_id k = i_id j) (rev (allItems d)) \<noteq> None"
      by (auto simp: find_None_iff)
    then obtain k where fk: "find (\<lambda>k. i_id k = i_id j) (rev (allItems d)) = Some k"
      by blast
    then have "i_id k = i_id j" and "k \<in> set (allItems d)"
      using find_SomeD [OF fk] by simp_all
    then show ?thesis
      by (simp add: getItem_loaded fk all)
  qed
  have one: "fst (getItem (i_id j) ?s) = Some j"
    if dist: "distinct (map i_id (fst (getAllItems ?s)))" and j: "j \<in> set (fst (getAllItems ?s))"
    for j
  proof -
    have "distinct (map i_id (rev (allItems d)))"
      using dist by (simp add: all rev_map [symmetric])
    moreover have "j \<in> set (rev (allItems d))"
      using j by (simp add: all)
    ultimately have "find (\<lambda>k. i_id k = i_id j) (rev (allItems d)) = Some j"
      by (rule find_distinct_key)
    then show ?thesis
      by (simp add: getItem_loaded)
  qed
  from flat srch ids last one show ?thesis by blast
qed

text \<open>The example dataset has pairwise distinct names.\<close>

theorem C9_witness:
  "distinct (map i_id (fst (getAllItems (loaded ex_data Map.empty new_index))))
   \<and> flattenItem ''fluid'' (raw_named ''water'')
        \<in> set (fst (getAllItems (loaded ex_data Map.empty new_index)))
   \<and> fst (getItem ''water'' (loaded ex_data Map.empty new_index)) =
       Some (flattenItem ''fluid'' (raw_named ''water''))"
proof -
  let ?s = "loaded ex_data Map.empty new_index"
  have all: "fst (getAllItems ?s) = allItems ex_data"
    by (simp add: getAllItems_def loaded_items)
  have dist: "distinct (map i_id (fst (getAllItems ?s)))"
    by (simp add: all ex_allItems flattenItem_def raw_named_def)
  have w: "flattenItem ''fluid'' (raw_named ''water'') \<in> set (fst (getAllItems ?s))"
    by (simp add: all ex_allItems)
  have "fst (getItem (i_id (flattenItem ''fluid'' (raw_named ''water''))) ?s) =
       Some (flattenItem ''fluid'' (raw_named ''water''))"
    using C9_item_ids [of ex_data Map.empty new_index, THEN conjunct2, THEN conjunct2,
        THEN conjunct2, THEN conjunct2, rule_format, OF dist w] .
  then have "fst (getItem ''water'' ?s) = Some (flattenItem ''fluid'' (raw_named ''water''))"
    by (simp add: flattenItem_def raw_named_def)
  with dist w show ?thesis by simp
qed

end
